theory Spec2Isabelle
  imports Main "HOL-Library.AList"
begin

section \<open>Python values, dictionaries and strings\<close>

text \<open>
  The values an event record or a configuration entry holds: \<open>None\<close>, booleans,
  integers and strings. Floating-point fields are outside the model. Strings are lists
  of 8-bit characters.
\<close>

datatype pyval = PNone | PBool bool | PInt int | PStr string

text \<open>Python truthiness: \<open>None\<close>, \<open>False\<close>, \<open>0\<close> and \<open>''\<close> are falsy.\<close>

fun truthy :: "pyval \<Rightarrow> bool" where
  "truthy PNone = False"
| "truthy (PBool b) = b"
| "truthy (PInt i) = (i \<noteq> 0)"
| "truthy (PStr s) = (s \<noteq> [])"

text \<open>
  A \<open>dict\<close> with string keys, in insertion order. \<open>d.get(k)\<close>, \<open>d.get(k, default)\<close>,
  \<open>d[k]\<close> (which raises \<open>KeyError\<close> on a missing key) and \<open>d[k] = v\<close>
  (\<open>AList.update\<close>: overwrite in place, or append).
\<close>

type_synonym pydict = "(string \<times> pyval) list"

datatype exn =
    TypeError
  | KeyError string
  | AttributeError
  | AssertionError string
  | FileNotFoundError
  | YAMLError
  | OSError
  | RequestException

definition dict_get_default :: "pydict \<Rightarrow> string \<Rightarrow> pyval \<Rightarrow> pyval" where
  "dict_get_default d k dflt = (case map_of d k of None \<Rightarrow> dflt | Some v \<Rightarrow> v)"

definition dict_get :: "pydict \<Rightarrow> string \<Rightarrow> pyval" where
  "dict_get d k = dict_get_default d k PNone"

definition dict_item :: "pydict \<Rightarrow> string \<Rightarrow> exn + pyval" where
  "dict_item d k = (case map_of d k of None \<Rightarrow> Inl (KeyError k) | Some v \<Rightarrow> Inr v)"

text \<open>\<open>str(v)\<close>, which is also what the f-string \<open>f'{v}'\<close> produces.\<close>

function str_nat :: "nat \<Rightarrow> string" where
  "str_nat n = (if n < 10 then [char_of (48 + n)]
                else str_nat (n div 10) @ [char_of (48 + n mod 10)])"
  by pat_completeness auto
termination
  by (relation "measure id") auto

definition str_int :: "int \<Rightarrow> string" where
  "str_int i = (if i < 0 then CHR ''-'' # str_nat (nat (- i)) else str_nat (nat i))"

fun py_str :: "pyval \<Rightarrow> string" where
  "py_str PNone = ''None''"
| "py_str (PBool b) = (if b then ''True'' else ''False'')"
| "py_str (PInt i) = str_int i"
| "py_str (PStr s) = s"

text \<open>
  \<open>str.lower()\<close> on the ASCII letters and \<open>str.strip()\<close>, whose white space is, among
  the 8-bit code points, 9 to 13, 28 to 32, 133 and 160.
\<close>

definition lower_char :: "char \<Rightarrow> char" where
  "lower_char c = (let n = (of_char c :: nat) in if 65 \<le> n \<and> n \<le> 90 then char_of (n + 32) else c)"

definition lower :: "string \<Rightarrow> string" where
  "lower s = map lower_char s"

definition is_space :: "char \<Rightarrow> bool" where
  "is_space c = (let n = (of_char c :: nat) in
     (9 \<le> n \<and> n \<le> 13) \<or> (28 \<le> n \<and> n \<le> 32) \<or> n = 133 \<or> n = 160)"

definition strip :: "string \<Rightarrow> string" where
  "strip s = rev (dropWhile is_space (rev (dropWhile is_space s)))"

section \<open>The wire format and the collaborators\<close>

record event =
  ev_name :: string
  ev_params :: pydict

record payload =
  non_personalized_ads :: bool
  client_id :: string
  user_id :: "string option"
  events :: "event list"

text \<open>One call of \<open>requests.post(url=..., data=json.dumps(payload))\<close>.\<close>

record request =
  url :: string
  data :: payload

datatype log_entry =
    Exception_invalid_instance pyval pyval
  | Exception_config_not_found
  | Exception_config_yaml
  | Debug_events_empty
  | Warning_name_empty
  | Warning_invalid_param string pyval
  | Info_sent payload
  | Exception_send pydict

text \<open>
  A parsed configuration file: its scalar entries and its \<open>fixed_dimensions\<close> entry,
  a mapping when present.
\<close>

record config_doc =
  entries :: pydict
  fixed_dimensions_entry :: "pydict option"

text \<open>
  The collaborators: \<open>uuid4 n\<close> is the text of the \<open>n\<close>-th identifier that
  \<open>uuid.uuid4()\<close> generates, \<open>post n r\<close> is what the \<open>n\<close>-th call of
  \<open>requests.post\<close> raises, if anything, \<open>read_yaml\<close> opens and parses a file
  (\<open>None\<close> for an empty document), and \<open>debug\<close> is the interpreter's \<open>__debug__\<close>.
\<close>

record env =
  uuid4 :: "nat \<Rightarrow> string"
  post :: "nat \<Rightarrow> request \<Rightarrow> exn option"
  read_yaml :: "string \<Rightarrow> exn + config_doc option"
  debug :: bool

text \<open>
  The mutable world: the store of dictionary objects that are shared by reference, the
  number of identifiers generated, the calls of \<open>requests.post\<close> made, and the log.
\<close>

type_synonym ref = nat

record world =
  heap :: "ref \<Rightarrow> pydict"
  next_ref :: ref
  uuid_calls :: nat
  posts :: "request list"
  logs :: "log_entry list"

definition alloc :: "pydict \<Rightarrow> world \<Rightarrow> ref \<times> world" where
  "alloc d w = (next_ref w, w\<lparr>heap := (heap w)(next_ref w := d), next_ref := Suc (next_ref w)\<rparr>)"

definition log :: "log_entry \<Rightarrow> world \<Rightarrow> world" where
  "log e w = w\<lparr>logs := logs w @ [e]\<rparr>"

section \<open>src/py/measurement\_protocol.py\<close>

definition GA_COLLECT_URL :: string where
  "GA_COLLECT_URL = ''https://www.google-analytics.com/mp/collect''"

definition GA_REQUEST_KEYS :: "string list" where
  "GA_REQUEST_KEYS = [''name'', ''client_id'', ''user_id'']"

definition GA_RESERVERD_KEYS :: "string list" where
  "GA_RESERVERD_KEYS =
     [''api_secret'', ''measurement_id'', ''app_instance_id'', ''uuid'', ''timestamp_micros'']"

definition is_valid_param :: "string \<Rightarrow> pyval \<Rightarrow> string list \<Rightarrow> bool" where
  "is_valid_param key val reserved_keys \<longleftrightarrow> key \<notin> set reserved_keys \<and> val \<noteq> PNone \<and> truthy val"

definition alnum_hyphen :: "char \<Rightarrow> bool" where
  "alnum_hyphen c = (let n = (of_char c :: nat) in
     (97 \<le> n \<and> n \<le> 122) \<or> (65 \<le> n \<and> n \<le> 90) \<or> (48 \<le> n \<and> n \<le> 57) \<or> n = 45)"

text \<open>\<open>re.sub(r'[^a-zA-Z0-9-]', '', text)\<close>; \<open>re.sub\<close> raises \<open>TypeError\<close> on a non-string.\<close>

fun format_to_alphanumeric :: "pyval \<Rightarrow> exn + string" where
  "format_to_alphanumeric (PStr s) = Inr (filter alnum_hyphen s)"
| "format_to_alphanumeric _ = Inl TypeError"

record tadau =
  api_secret :: pyval
  measurement_id :: pyval
  opt_in :: pyval
  target_url :: string
  fixed_dimensions :: ref

text \<open>\<open>opt_in.lower().strip() == 'true'\<close>; only a string has \<open>lower\<close>.\<close>

fun is_opt_in :: "pyval \<Rightarrow> exn + bool" where
  "is_opt_in (PStr s) = Inr (strip (lower s) = ''true'')"
| "is_opt_in _ = Inl AttributeError"

definition is_valid_instance :: "tadau \<Rightarrow> world \<Rightarrow> bool \<times> world" where
  "is_valid_instance t w =
     (if \<not> truthy (api_secret t) \<or> \<not> truthy (measurement_id t)
      then (False, log (Exception_invalid_instance (api_secret t) (measurement_id t)) w)
      else (True, w))"

definition load_config_from_yaml_file ::
  "env \<Rightarrow> string \<Rightarrow> world \<Rightarrow> (exn + config_doc option) \<times> world" where
  "load_config_from_yaml_file en config_file_location w =
     (case read_yaml en config_file_location of
        Inr loaded_config \<Rightarrow> (Inr loaded_config, w)
      | Inl FileNotFoundError \<Rightarrow> (Inr None, log Exception_config_not_found w)
      | Inl YAMLError \<Rightarrow> (Inr None, log Exception_config_yaml w)
      | Inl e \<Rightarrow> (Inl e, w))"

text \<open>
  \<open>Tadau.__init__\<close>. The arguments are the keyword arguments of the source;
  \<open>fixed_dimensions\<close>, when given, is a reference to the caller's dictionary, and a
  dictionary read from the configuration file is a new object.
\<close>

definition config_truthy :: "config_doc option \<Rightarrow> bool" where
  "config_truthy config =
     (case config of None \<Rightarrow> False
      | Some c \<Rightarrow> entries c \<noteq> [] \<or> fixed_dimensions_entry c \<noteq> None)"

definition Tadau_init ::
  "env \<Rightarrow> pyval \<Rightarrow> pyval \<Rightarrow> pyval \<Rightarrow> ref option \<Rightarrow> string option \<Rightarrow> world
     \<Rightarrow> (exn + tadau) \<times> world" where
  "Tadau_init en api_secret0 measurement_id0 opt_in0 fixed_dimensions0 config_file_location w0 =
     (let loaded =
        (case config_file_location of
           None \<Rightarrow> (Inr (api_secret0, measurement_id0, opt_in0, fixed_dimensions0), w0)
         | Some loc \<Rightarrow>
             if loc = [] then (Inr (api_secret0, measurement_id0, opt_in0, fixed_dimensions0), w0)
             else
               (case load_config_from_yaml_file en loc w0 of
                  (Inl e, w1) \<Rightarrow> (Inl e, w1)
                | (Inr config, w1) \<Rightarrow>
                    if config_truthy config then
                      (case config of
                         None \<Rightarrow> (Inr (api_secret0, measurement_id0, opt_in0, fixed_dimensions0), w1)
                       | Some c \<Rightarrow>
                          (case is_opt_in (dict_get_default (entries c) ''opt_in'' (PStr ''false'')) of
                             Inl e \<Rightarrow> (Inl e, w1)
                           | Inr b \<Rightarrow>
                              (case fixed_dimensions_entry c of
                                 None \<Rightarrow>
                                   (Inr (dict_get (entries c) ''api_secret'',
                                         dict_get (entries c) ''measurement_id'', PBool b, None), w1)
                               | Some d \<Rightarrow>
                                   (case alloc d w1 of (r, w2) \<Rightarrow>
                                     (Inr (dict_get (entries c) ''api_secret'',
                                           dict_get (entries c) ''measurement_id'', PBool b, Some r),
                                      w2)))))
                    else (Inr (api_secret0, measurement_id0, opt_in0, fixed_dimensions0), w1)))
      in case loaded of
           (Inl e, w1) \<Rightarrow> (Inl e, w1)
         | (Inr (api_secret1, measurement_id1, opt_in1, fixed_dimensions1), w1) \<Rightarrow>
            (case (case fixed_dimensions1 of
                     None \<Rightarrow> alloc [] w1
                   | Some r \<Rightarrow> if heap w1 r \<noteq> [] then (r, w1) else alloc [] w1) of
               (r, w2) \<Rightarrow>
                (let t = \<lparr>api_secret = api_secret1, measurement_id = measurement_id1,
                          opt_in = opt_in1,
                          target_url = GA_COLLECT_URL @ ''?api_secret='' @ py_str api_secret1
                                       @ ''&measurement_id='' @ py_str measurement_id1,
                          fixed_dimensions = r\<rparr>
                 in if debug en then
                      (if \<not> truthy (opt_in t)
                       then (Inl (AssertionError ''Tadau: Class initiated not opted in''), w2)
                       else
                         (case is_valid_instance t w2 of
                            (False, w3) \<Rightarrow>
                              (Inl (AssertionError
                                 (''Tadau: Class could not be initiated because api_secret and/or''
                                  @ '' measurement_id is invalid ('' @ py_str (api_secret t)
                                  @ '', '' @ py_str (measurement_id t) @ '')'')), w3)
                          | (True, w3) \<Rightarrow> (Inr t, w3)))
                    else (Inr t, w2))))"

text \<open>
  The body of the inner loop of \<open>send_events\<close>: \<open>params\<close> is the reference held in
  \<open>self.fixed_dimensions\<close>, so \<open>params[k] = v\<close> writes into that dictionary.
\<close>

definition merge_param :: "ref \<Rightarrow> string list \<Rightarrow> string \<times> pyval \<Rightarrow> world \<Rightarrow> world" where
  "merge_param params event_reserved_keys kv w =
     (case kv of (k, v) \<Rightarrow>
        if is_valid_param k v event_reserved_keys
        then w\<lparr>heap := (heap w)(params := AList.update k v (heap w params))\<rparr>
        else if k \<notin> set GA_REQUEST_KEYS then log (Warning_invalid_param k v) w
        else w)"

text \<open>
  The body of the \<open>try\<close> statement for one row: the exception it raises, if any, and
  the world at that point.
\<close>

definition send_row :: "env \<Rightarrow> tadau \<Rightarrow> world \<Rightarrow> pydict \<Rightarrow> exn option \<times> world" where
  "send_row en t w row =
     (if \<not> truthy (dict_get row ''name'') then (None, log Warning_name_empty w)
      else
        (case (if truthy (dict_get row ''client_id'') then (dict_get row ''client_id'', w)
               else (PStr (uuid4 en (uuid_calls w)), w\<lparr>uuid_calls := Suc (uuid_calls w)\<rparr>)) of
           (cid, w1) \<Rightarrow>
            (let event_reserved_keys = GA_RESERVERD_KEYS @ GA_REQUEST_KEYS;
                 params = fixed_dimensions t;
                 w2 = fold (merge_param params event_reserved_keys) row w1
             in case dict_item row ''name'' of
                  Inl e \<Rightarrow> (Some e, w2)
                | Inr nm \<Rightarrow>
                   (case format_to_alphanumeric nm of
                      Inl e \<Rightarrow> (Some e, w2)
                    | Inr name \<Rightarrow>
                       (let uid = dict_get row ''user_id'';
                            pl = \<lparr>non_personalized_ads = True, client_id = py_str cid,
                                  user_id = (if truthy uid then Some (py_str uid) else None),
                                  events = [\<lparr>ev_name = name, ev_params = heap w2 params\<rparr>]\<rparr>;
                            req = \<lparr>url = target_url t, data = pl\<rparr>;
                            w3 = w2\<lparr>posts := posts w2 @ [req]\<rparr>
                        in case post en (length (posts w2)) req of
                             Some e \<Rightarrow> (Some e, w3)
                           | None \<Rightarrow> (None, log (Info_sent pl) w3))))))"

text \<open>The \<open>for\<close> loop with its \<open>try ... except Exception\<close> around each row.\<close>

fun send_rows :: "env \<Rightarrow> tadau \<Rightarrow> world \<Rightarrow> pydict list \<Rightarrow> world" where
  "send_rows en t w [] = w"
| "send_rows en t w (row # rows) =
     (case send_row en t w row of
        (Some e, w') \<Rightarrow> send_rows en t (log (Exception_send row) w') rows
      | (None, w') \<Rightarrow> send_rows en t w' rows)"

text \<open>\<open>Tadau.send_events\<close>: the exception that reaches the caller, if any, and the world.\<close>

definition send_events :: "env \<Rightarrow> tadau \<Rightarrow> world \<Rightarrow> pydict list \<Rightarrow> exn option \<times> world" where
  "send_events en t w evs =
     (if \<not> truthy (opt_in t) then (None, w)
      else
        (case is_valid_instance t w of
           (False, w') \<Rightarrow> (None, w')
         | (True, w') \<Rightarrow>
            if evs = [] then (None, log Debug_events_empty w')
            else (None, send_rows en t w' evs)))"

section \<open>src/tadau/measurement\_protocol.py\<close>

record tadau_legacy =
  legacy_api_secret :: pyval
  legacy_measurement_id :: pyval

definition legacy_api_url :: string where
  "legacy_api_url = ''https://www.google-analytics.com/mp/collect''"

definition legacy_reserved_keys :: "string list" where
  "legacy_reserved_keys = [''app_instance_id'', ''client_id'', ''uuid'', ''user_id'', ''timestamp_micros'']"

definition Tadau_legacy_init :: "pydict \<Rightarrow> tadau_legacy" where
  "Tadau_legacy_init params =
     \<lparr>legacy_api_secret =
        (if truthy (dict_get params ''api_secret'') then dict_get params ''api_secret''
         else PStr ''shyN6ac9RuyxdgLQZRIvyg''),
      legacy_measurement_id =
        (if truthy (dict_get params ''measurement_id'') then dict_get params ''measurement_id''
         else PStr ''G-SWYK2BS415'')\<rparr>"

definition validate_param :: "string \<Rightarrow> pyval \<Rightarrow> string list \<Rightarrow> bool" where
  "validate_param key val reserved_keys \<longleftrightarrow>
     key \<notin> set reserved_keys \<and> val \<noteq> PNone \<and> val \<noteq> PStr []"

fun filter_alphanumeric_only :: "pyval \<Rightarrow> exn + string" where
  "filter_alphanumeric_only (PStr s) = Inr (filter alnum_hyphen s)"
| "filter_alphanumeric_only _ = Inl TypeError"

text \<open>The body of the loop of \<open>process\<close> for one row.\<close>

definition process_row :: "env \<Rightarrow> tadau_legacy \<Rightarrow> world \<Rightarrow> pydict \<Rightarrow> exn option \<times> world" where
  "process_row en t w row =
     (let cid = dict_get row ''client_id'' in
      if \<not> truthy cid then (None, w)
      else
        (let uid = dict_get row ''user_id'';
             event_reserved_keys = legacy_reserved_keys @ [''name''];
             params = filter (\<lambda>(k, v). validate_param k v event_reserved_keys) row
         in case dict_item row ''name'' of
              Inl e \<Rightarrow> (Some e, w)
            | Inr nm \<Rightarrow>
               (case filter_alphanumeric_only nm of
                  Inl e \<Rightarrow> (Some e, w)
                | Inr name \<Rightarrow>
                   (let pl = \<lparr>non_personalized_ads = True, client_id = py_str cid,
                              user_id = (if truthy uid then Some (py_str uid) else None),
                              events = [\<lparr>ev_name = name, ev_params = params\<rparr>]\<rparr>;
                        req = \<lparr>url = legacy_api_url @ ''?api_secret='' @ py_str (legacy_api_secret t)
                                     @ ''&measurement_id='' @ py_str (legacy_measurement_id t),
                               data = pl\<rparr>;
                        w1 = w\<lparr>posts := posts w @ [req]\<rparr>
                    in (post en (length (posts w)) req, w1)))))"

text \<open>The loop of \<open>process\<close>: the first exception ends it.\<close>

fun process_rows :: "env \<Rightarrow> tadau_legacy \<Rightarrow> world \<Rightarrow> pydict list \<Rightarrow> exn option \<times> world" where
  "process_rows en t w [] = (None, w)"
| "process_rows en t w (row # rows) =
     (case process_row en t w row of
        (Some e, w') \<Rightarrow> (Some e, w')
      | (None, w') \<Rightarrow> process_rows en t w' rows)"

text \<open>\<open>Tadau.process\<close>: one \<open>try\<close> around the loop, and \<open>except: pass\<close>.\<close>

definition process :: "env \<Rightarrow> tadau_legacy \<Rightarrow> world \<Rightarrow> pydict list \<Rightarrow> exn option \<times> world" where
  "process en t w evs =
     (case process_rows en t w evs of
        (Some e, w') \<Rightarrow> (None, w')
      | (None, w') \<Rightarrow> (None, w'))"

section \<open>Notions used in the statements\<close>

text \<open>
  A row has a name when \<open>row.get('name')\<close> is a non-empty string. \<open>row_done\<close> is the world
  after one iteration of the loop of \<open>send_events\<close>, \<open>calls_made w w'\<close> the calls of
  \<open>requests.post\<close> made between two worlds, \<open>param_of req k\<close> the entry \<open>k\<close> of the
  \<open>params\<close> of the event a request carries, and \<open>no_field k row\<close> says that the row has no
  field \<open>k\<close> that \<open>_is_valid_param\<close> accepts.
\<close>

definition has_name :: "pydict \<Rightarrow> bool" where
  "has_name row = (case dict_get row ''name'' of PStr s \<Rightarrow> s \<noteq> [] | _ \<Rightarrow> False)"

definition row_done :: "env \<Rightarrow> tadau \<Rightarrow> world \<Rightarrow> pydict \<Rightarrow> world" where
  "row_done en t w row =
     (case send_row en t w row of
        (Some e, w') \<Rightarrow> log (Exception_send row) w'
      | (None, w') \<Rightarrow> w')"

definition calls_made :: "world \<Rightarrow> world \<Rightarrow> request list" where
  "calls_made w w' = drop (length (posts w)) (posts w')"

definition param_of :: "request \<Rightarrow> string \<Rightarrow> pyval option" where
  "param_of req k = (case events (data req) of [] \<Rightarrow> None | e # _ \<Rightarrow> map_of (ev_params e) k)"




definition active :: "tadau \<Rightarrow> bool" where
  "active t \<longleftrightarrow> truthy (opt_in t) \<and> truthy (api_secret t) \<and> truthy (measurement_id t)"

section \<open>Example inputs\<close>

text \<open>
  A transport that never fails, a world with one empty dictionary at reference 0, and the
  reporter of the unit tests, whose \<open>fixed_dimensions\<close> is that dictionary.
\<close>

definition ex_env :: env where
  "ex_env = \<lparr>uuid4 = (\<lambda>n. ''uuid-'' @ str_nat n), post = (\<lambda>n r. None),
             read_yaml = (\<lambda>f. Inl FileNotFoundError), debug = True\<rparr>"

definition ex_world :: world where
  "ex_world = \<lparr>heap = (\<lambda>r. []), next_ref = 1, uuid_calls = 0, posts = [], logs = []\<rparr>"

definition ex_tadau :: tadau where
  "ex_tadau = \<lparr>api_secret = PStr ''1232'', measurement_id = PStr ''G-1223214'',
               opt_in = PBool True,
               target_url = ''https://www.google-analytics.com/mp/collect?api_secret=1232&measurement_id=G-1223214'',
               fixed_dimensions = 0\<rparr>"

definition ex_env_down :: env where
  "ex_env_down = ex_env\<lparr>post := (\<lambda>n r. Some RequestException)\<rparr>"

definition ex_legacy :: tadau_legacy where
  "ex_legacy = Tadau_legacy_init []"

definition ex_world_deploy :: world where
  "ex_world_deploy = ex_world\<lparr>heap := (heap ex_world)(0 := [(''deploy_id'', PStr ''X'')])\<rparr>"


definition ex_env_config :: "pyval \<Rightarrow> env" where
  "ex_env_config opt = ex_env\<lparr>read_yaml := (\<lambda>f. Inr (Some
     \<lparr>entries = [(''api_secret'', PStr ''1232''), (''measurement_id'', PStr ''G-1223214''),
                 (''opt_in'', opt)],
      fixed_dimensions_entry = Some [(''deploy_id'', PStr ''bdb40a38'')]\<rparr>))\<rparr>"

section \<open>Lemmas on the loop of \<open>send_events\<close>\<close>

lemma merge_param_frame:
  "posts (merge_param r ks kv w) = posts w"
  "uuid_calls (merge_param r ks kv w) = uuid_calls w"
  "next_ref (merge_param r ks kv w) = next_ref w"
  "r' \<noteq> r \<Longrightarrow> heap (merge_param r ks kv w) r' = heap w r'"
  by (auto simp: merge_param_def log_def split: prod.splits)

lemma fold_merge_frame:
  "posts (fold (merge_param r ks) row w) = posts w"
  "uuid_calls (fold (merge_param r ks) row w) = uuid_calls w"
  "next_ref (fold (merge_param r ks) row w) = next_ref w"
  "r' \<noteq> r \<Longrightarrow> heap (fold (merge_param r ks) row w) r' = heap w r'"
  by (induction row arbitrary: w) (simp_all add: merge_param_frame)





lemma dict_item_of_get:
  "dict_get row k = PStr s \<Longrightarrow> dict_item row k = Inr (PStr s)"
  by (auto simp: dict_get_def dict_get_default_def dict_item_def split: option.splits)

lemma has_nameE: "has_name row \<Longrightarrow> \<exists>s. dict_get row ''name'' = PStr s \<and> s \<noteq> []"
  by (auto simp: has_name_def split: pyval.splits)


lemma send_row_posts_named:
  assumes "dict_get row ''name'' = PStr s" "s \<noteq> []"
  shows "posts (snd (send_row en t w row)) = posts w @
     [\<lparr>url = target_url t,
       data = \<lparr>non_personalized_ads = True,
               client_id = (if truthy (dict_get row ''client_id'')
                            then py_str (dict_get row ''client_id'')
                            else uuid4 en (uuid_calls w)),
               user_id = (if truthy (dict_get row ''user_id'')
                          then Some (py_str (dict_get row ''user_id'')) else None),
               events = [\<lparr>ev_name = filter alnum_hyphen s,
                          ev_params = heap (snd (send_row en t w row)) (fixed_dimensions t)\<rparr>]\<rparr>\<rparr>]"
  using assms
  by (auto simp: send_row_def Let_def dict_item_of_get log_def fold_merge_frame
      split: option.splits)

lemma send_row_posts_unnamed:
  "\<not> has_name row \<Longrightarrow> posts (snd (send_row en t w row)) = posts w"
  by (auto simp: send_row_def has_name_def Let_def log_def fold_merge_frame dict_item_def
      dict_get_def dict_get_default_def
      split: option.splits pyval.splits sum.splits)


lemma merge_param_uuid:
  "merge_param r ks kv (w\<lparr>uuid_calls := n\<rparr>) = (merge_param r ks kv w)\<lparr>uuid_calls := n\<rparr>"
  by (simp add: merge_param_def log_def split: prod.splits)

lemma fold_merge_uuid:
  "fold (merge_param r ks) row (w\<lparr>uuid_calls := n\<rparr>) = (fold (merge_param r ks) row w)\<lparr>uuid_calls := n\<rparr>"
  by (induction row arbitrary: w) (simp_all add: merge_param_uuid)

lemma send_row_heap:
  "heap (snd (send_row en t w row)) =
     (if truthy (dict_get row ''name'')
      then heap (fold (merge_param (fixed_dimensions t) (GA_RESERVERD_KEYS @ GA_REQUEST_KEYS)) row w)
      else heap w)"
  by (auto simp: send_row_def Let_def log_def fold_merge_uuid
      split: option.splits sum.splits)

lemma send_row_heap_other:
  "r \<noteq> fixed_dimensions t \<Longrightarrow> heap (snd (send_row en t w row)) r = heap w r"
  by (simp add: send_row_heap fold_merge_frame)




lemma send_rows_Cons: "send_rows en t w (row # rows) = send_rows en t (row_done en t w row) rows"
  by (simp add: row_done_def split: prod.splits option.splits)


declare send_rows.simps(2) [simp del]

lemma row_done_proj:
  "posts (row_done en t w row) = posts (snd (send_row en t w row))"
  "heap (row_done en t w row) = heap (snd (send_row en t w row))"
  "uuid_calls (row_done en t w row) = uuid_calls (snd (send_row en t w row))"
  by (auto simp: row_done_def log_def split: prod.splits option.splits)

lemma send_row_posts:
  "posts (snd (send_row en t w row)) = posts w @ calls_made w (snd (send_row en t w row))"
proof (cases "has_name row")
  case True
  then obtain s where "dict_get row ''name'' = PStr s" "s \<noteq> []" using has_nameE by blast
  then show ?thesis by (simp add: calls_made_def send_row_posts_named)
next
  case False
  then show ?thesis by (simp add: calls_made_def send_row_posts_unnamed)
qed

lemma send_row_calls_length:
  "length (calls_made w (snd (send_row en t w row))) = (if has_name row then 1 else 0)"
proof (cases "has_name row")
  case True
  then obtain s where "dict_get row ''name'' = PStr s" "s \<noteq> []" using has_nameE by blast
  with True show ?thesis by (simp add: calls_made_def send_row_posts_named)
next
  case False
  then show ?thesis by (simp add: calls_made_def send_row_posts_unnamed)
qed


lemma send_rows_posts:
  "posts (send_rows en t w rows) = posts w @ calls_made w (send_rows en t w rows)"
proof (induction rows arbitrary: w)
  case Nil
  then show ?case by (simp add: calls_made_def)
next
  case (Cons row rows)
  let ?w1 = "row_done en t w row"
  have 1: "posts ?w1 = posts w @ calls_made w (snd (send_row en t w row))"
    using send_row_posts[of en t w row] by (simp add: row_done_proj)
  have "posts (send_rows en t ?w1 rows) = posts w @ calls_made w (snd (send_row en t w row)) @ calls_made ?w1 (send_rows en t ?w1 rows)"
    using Cons.IH[of ?w1] 1 by simp
  then have "posts (send_rows en t w (row # rows)) = posts w @ drop (length (posts w)) (posts (send_rows en t w (row # rows)))"
    by (simp add: send_rows_Cons)
  then show ?case
    by (simp add: calls_made_def)
qed

lemma calls_made_Cons:
  "calls_made w (send_rows en t w (row # rows)) =
     calls_made w (snd (send_row en t w row))
       @ calls_made (row_done en t w row) (send_rows en t (row_done en t w row) rows)"
proof -
  let ?w1 = "row_done en t w row"
  have 1: "posts ?w1 = posts w @ calls_made w (snd (send_row en t w row))"
    using send_row_posts[of en t w row] by (simp add: row_done_proj)
  have "posts (send_rows en t ?w1 rows) = posts w @ calls_made w (snd (send_row en t w row)) @ calls_made ?w1 (send_rows en t ?w1 rows)"
    using send_rows_posts[of en t ?w1 rows] 1 by simp
  then have "drop (length (posts w)) (posts (send_rows en t w (row # rows))) =
      calls_made w (snd (send_row en t w row)) @ calls_made ?w1 (send_rows en t ?w1 rows)"
    by (simp add: send_rows_Cons)
  then show ?thesis
    by (simp add: calls_made_def[of w "send_rows en t w (row # rows)"])
qed

lemma send_rows_calls_length:
  "length (calls_made w (send_rows en t w rows)) = length (filter has_name rows)"
proof (induction rows arbitrary: w)
  case Nil
  then show ?case by (simp add: calls_made_def)
next
  case (Cons row rows)
  then show ?case
    by (simp add: calls_made_Cons send_row_calls_length)
qed


lemma send_rows_heap_other:
  "r \<noteq> fixed_dimensions t \<Longrightarrow> heap (send_rows en t w rows) r = heap w r"
  by (induction rows arbitrary: w) (simp_all add: send_rows_Cons row_done_proj send_row_heap_other)









lemma send_events_active:
  "active t \<Longrightarrow> snd (send_events en t w evs) = (if evs = [] then log Debug_events_empty w else send_rows en t w evs)"
  by (simp add: active_def send_events_def is_valid_instance_def)

lemma send_events_calls:
  "active t \<Longrightarrow> calls_made w (snd (send_events en t w evs)) = calls_made w (send_rows en t w evs)"
  by (simp add: send_events_active calls_made_def log_def)







lemmas ex_simps = ex_env_def ex_world_def ex_tadau_def ex_env_down_def ex_legacy_def
  Tadau_legacy_init_def send_events_def is_valid_instance_def send_rows_Cons row_done_def
  send_row_def Let_def dict_get_def dict_get_default_def dict_item_def merge_param_def
  is_valid_param_def GA_RESERVERD_KEYS_def GA_REQUEST_KEYS_def log_def calls_made_def
  alnum_hyphen_def process_def process_row_def validate_param_def legacy_reserved_keys_def
  legacy_api_url_def has_name_def param_of_def












lemma Tadau_init_direct:
  assumes "loc = None \<or> loc = Some []"
  shows "fst (Tadau_init en a m opt fd loc w) =
     (if debug en then
        (if \<not> truthy opt then Inl (AssertionError ''Tadau: Class initiated not opted in'')
         else if \<not> truthy a \<or> \<not> truthy m then
           Inl (AssertionError
                 (''Tadau: Class could not be initiated because api_secret and/or''
                  @ '' measurement_id is invalid ('' @ py_str a @ '', '' @ py_str m @ '')''))
         else Inr \<lparr>api_secret = a, measurement_id = m, opt_in = opt,
                   target_url = GA_COLLECT_URL @ ''?api_secret='' @ py_str a
                                @ ''&measurement_id='' @ py_str m,
                   fixed_dimensions = (case fd of None \<Rightarrow> next_ref w
                                       | Some r \<Rightarrow> if heap w r \<noteq> [] then r else next_ref w)\<rparr>)
      else Inr \<lparr>api_secret = a, measurement_id = m, opt_in = opt,
                target_url = GA_COLLECT_URL @ ''?api_secret='' @ py_str a
                             @ ''&measurement_id='' @ py_str m,
                fixed_dimensions = (case fd of None \<Rightarrow> next_ref w
                                    | Some r \<Rightarrow> if heap w r \<noteq> [] then r else next_ref w)\<rparr>)"
  using assms
  by (auto simp: Tadau_init_def Let_def is_valid_instance_def alloc_def
      split: option.splits)

section \<open>The claims\<close>

text \<open>
  C2. \<open>send_events\<close> returns without an error, calls \<open>requests.post\<close> not once and
  changes nothing but the log when the reporter is not opted in, or \<open>api_secret\<close> or
  \<open>measurement_id\<close> is empty, or the batch is empty; a reporter that is not opted in changes
  nothing at all.
\<close>

theorem send_events_noop:
  assumes "\<not> truthy (opt_in t) \<or> \<not> truthy (api_secret t) \<or> \<not> truthy (measurement_id t) \<or> evs = []"
  shows "fst (send_events en t w evs) = None \<and>
         calls_made w (snd (send_events en t w evs)) = [] \<and>
         (\<exists>ls. snd (send_events en t w evs) = w\<lparr>logs := logs w @ ls\<rparr>) \<and>
         (\<not> truthy (opt_in t) \<longrightarrow> snd (send_events en t w evs) = w)"
proof -
  have a: "fst (send_events en t w evs) = None"
    by (simp add: send_events_def is_valid_instance_def)
  have b: "\<exists>ls. snd (send_events en t w evs) = w\<lparr>logs := logs w @ ls\<rparr>"
  proof (cases "\<not> truthy (opt_in t)")
    case True
    then have "snd (send_events en t w evs) = w\<lparr>logs := logs w @ []\<rparr>"
      by (simp add: send_events_def)
    then show ?thesis by blast
  next
    case False
    then show ?thesis using assms
      by (auto simp: send_events_def is_valid_instance_def log_def)
  qed
  then obtain ls where ls: "snd (send_events en t w evs) = w\<lparr>logs := logs w @ ls\<rparr>" by blast
  have c: "calls_made w (snd (send_events en t w evs)) = []"
    by (simp add: ls calls_made_def)
  have d: "\<not> truthy (opt_in t) \<longrightarrow> snd (send_events en t w evs) = w"
    by (simp add: send_events_def)
  from a b c d show ?thesis by blast
qed

theorem send_events_noop_witness:
  "\<not> truthy (opt_in (ex_tadau\<lparr>opt_in := PBool False\<rparr>)) \<and>
   posts (snd (send_events ex_env (ex_tadau\<lparr>opt_in := PBool False\<rparr>) ex_world
     [[(''name'', PStr ''event_name''), (''client_id'', PStr ''123'')]])) = []"
  using send_events_noop[of "ex_tadau\<lparr>opt_in := PBool False\<rparr>"
      "[[(''name'', PStr ''event_name''), (''client_id'', PStr ''123'')]]" ex_env ex_world]
  by (simp add: ex_world_def)

text \<open>
  C1. The claim is that \<open>send_events\<close> leaves \<open>fixed_dimensions\<close> as it was. It does not:
  the reporter of the unit tests starts with an empty \<open>fixed_dimensions\<close>, and after one
  event with the parameter \<open>value\<close> the dictionary holds that parameter.
\<close>

theorem send_events_mutates_fixed_dimensions:
  "heap ex_world (fixed_dimensions ex_tadau) = [] \<and>
   heap (snd (send_events ex_env ex_tadau ex_world
          [[(''client_id'', PStr ''123''), (''name'', PStr ''event_name''), (''value'', PStr ''42'')]]))
     (fixed_dimensions ex_tadau) = [(''value'', PStr ''42'')]"
  by (simp add: ex_simps)



















text \<open>
  C9. The claim is that a string \<open>opt_in\<close> is read as true only when it is \<open>true\<close> after
  trimming and lowercasing, however it is passed. \<open>_is_opt_in\<close> does so, but \<open>__init__\<close>
  applies it to the value of a configuration file only: passed as an argument, the string
  \<open>false\<close> is stored as it is, is truthy, and gives a reporter that sends; and a boolean in
  the configuration file raises \<open>AttributeError\<close>.
\<close>

theorem opt_in_string_not_interpreted:
  "fst (Tadau_init ex_env (PStr ''1232'') (PStr ''G-1223214'') (PStr ''false'') (Some 0) None
         ex_world_deploy)
     = Inr (ex_tadau\<lparr>opt_in := PStr ''false''\<rparr>) \<and>
   length (calls_made ex_world_deploy
     (snd (send_events ex_env (ex_tadau\<lparr>opt_in := PStr ''false''\<rparr>) ex_world_deploy
            [[(''client_id'', PStr ''123''), (''name'', PStr ''event_name'')]]))) = 1 \<and>
   is_opt_in (PStr ''false'') = Inr False \<and>
   is_opt_in (PStr '' TRUE '') = Inr True \<and>
   fst (Tadau_init (ex_env_config (PStr '' TRUE '')) PNone PNone (PBool False) None
          (Some ''config.yaml'') ex_world)
     = Inr (ex_tadau\<lparr>fixed_dimensions := 1\<rparr>) \<and>
   fst (Tadau_init (ex_env_config (PBool True)) PNone PNone (PBool False) None
          (Some ''config.yaml'') ex_world)
     = Inl AttributeError"
proof -
  have a: "fst (Tadau_init ex_env (PStr ''1232'') (PStr ''G-1223214'') (PStr ''false'') (Some 0) None
         ex_world_deploy) = Inr (ex_tadau\<lparr>opt_in := PStr ''false''\<rparr>)"
    by (simp add: Tadau_init_direct GA_COLLECT_URL_def ex_env_def ex_tadau_def
        ex_world_deploy_def ex_world_def)
  have "active (ex_tadau\<lparr>opt_in := PStr ''false''\<rparr>)"
    by (simp add: active_def ex_tadau_def)
  then have b: "length (calls_made ex_world_deploy
     (snd (send_events ex_env (ex_tadau\<lparr>opt_in := PStr ''false''\<rparr>) ex_world_deploy
            [[(''client_id'', PStr ''123''), (''name'', PStr ''event_name'')]]))) = 1"
    by (simp add: send_events_calls send_rows_calls_length has_name_def dict_get_def
        dict_get_default_def)
  have c: "is_opt_in (PStr ''false'') = Inr False" by code_simp
  have d: "is_opt_in (PStr '' TRUE '') = Inr True" by code_simp
  have e: "fst (Tadau_init (ex_env_config (PStr '' TRUE '')) PNone PNone (PBool False) None
          (Some ''config.yaml'') ex_world) = Inr (ex_tadau\<lparr>fixed_dimensions := 1\<rparr>)"
    by (simp add: Tadau_init_def load_config_from_yaml_file_def config_truthy_def d
        dict_get_def dict_get_default_def alloc_def is_valid_instance_def GA_COLLECT_URL_def
        ex_env_config_def ex_env_def ex_tadau_def ex_world_def del: is_opt_in.simps)
  have f: "fst (Tadau_init (ex_env_config (PBool True)) PNone PNone (PBool False) None
          (Some ''config.yaml'') ex_world) = Inl AttributeError"
    by (simp add: Tadau_init_def load_config_from_yaml_file_def config_truthy_def
        dict_get_def dict_get_default_def ex_env_config_def ex_env_def ex_world_def)
  from a b c d e f show ?thesis by (intro conjI)
qed

end
